theory Spec2Isabelle
  imports Main
begin

section \<open>Go values as seen through an empty interface\<close>

text \<open>
  Every subject, expected value, key and message argument of minass is an
  \<^verbatim>\<open>interface{}\<close>: a dynamic type together with a value of that type. The
  checks inspect both through \<^verbatim>\<open>reflect\<close> and through type assertions, so the
  model is a closed universe of tagged values. Containers carry their element
  types (an empty slice of strings and an empty slice of ints are different
  values), nilable kinds carry \<open>None\<close> for nil, and pointers, channels and
  functions carry an identity, because Go compares them by identity.

  \<open>TStruct n c\<close> is a struct type named \<open>n\<close>; \<open>c\<close> says whether all of its
  fields have comparable types. The fields themselves are not modelled: the
  number in \<open>VStruct n c k\<close> stands for their contents.
\<close>

datatype gtype =
    TBool | TInt | TUint8 | TString | TIface | TFunc
  | TStruct string bool
  | TPtr gtype
  | TSlice gtype
  | TArray nat gtype
  | TMap gtype gtype
  | TChan gtype

datatype gkind =
    KInvalid | KBool | KInt | KUint8 | KString | KInterface | KFunc | KStruct
  | KPtr | KSlice | KArray | KMap | KChan

text \<open>
  What \<^verbatim>\<open>io.ReadAll\<close> returns on a reader: the bytes read with a nil error, or
  an error.
\<close>

datatype read_result = ReadOk string | ReadErr

text \<open>
  \<open>VNil\<close> is the nil interface (no dynamic type). \<open>VReader n p r\<close> is a non-nil
  pointer, at address \<open>p\<close>, to a struct of type \<open>n\<close> whose pointer type
  implements \<^verbatim>\<open>io.Reader\<close> (a \<^verbatim>\<open>*bytes.Buffer\<close>, say), and on which
  \<^verbatim>\<open>io.ReadAll\<close> returns \<open>r\<close>. No other value of the universe implements
  \<^verbatim>\<open>io.Reader\<close>. Bytes are \<open>char\<close>s, as in a Go string.
\<close>

datatype gval =
    VNil
  | VBool bool
  | VInt int
  | VUint8 char
  | VString string
  | VStruct string bool nat
  | VPtr gtype "(nat \<times> gval) option"
  | VReader string nat read_result
  | VSlice gtype "gval list option"
  | VArray gtype "gval list"
  | VMap gtype gtype "(gval \<times> gval) list option"
  | VChan gtype "nat option"
  | VFunc "nat option"

text \<open>
  A panic carries the value given to \<^verbatim>\<open>panic\<close>, or is raised by the \<^verbatim>\<open>reflect\<close>
  package (a \<^verbatim>\<open>*reflect.ValueError\<close>: the method called and the kind it was
  called on) or by the runtime.
\<close>

datatype gopanic =
    PanicValue gval
  | ReflectValueError string gkind
  | RuntimeError string

text \<open>A call either returns or panics; the state it leaves is kept beside it.\<close>

datatype 'r outcome = Return 'r | Panicked gopanic

text \<open>\<^verbatim>\<open>reflect.TypeOf(v)\<close>: the dynamic type, \<open>None\<close> for the nil interface.\<close>

fun typeOf :: "gval \<Rightarrow> gtype option" where
  "typeOf VNil = None"
| "typeOf (VBool _) = Some TBool"
| "typeOf (VInt _) = Some TInt"
| "typeOf (VUint8 _) = Some TUint8"
| "typeOf (VString _) = Some TString"
| "typeOf (VStruct n c _) = Some (TStruct n c)"
| "typeOf (VPtr t _) = Some (TPtr t)"
| "typeOf (VReader n _ _) = Some (TPtr (TStruct n False))"
| "typeOf (VSlice t _) = Some (TSlice t)"
| "typeOf (VArray t xs) = Some (TArray (length xs) t)"
| "typeOf (VMap k v _) = Some (TMap k v)"
| "typeOf (VChan t _) = Some (TChan t)"
| "typeOf (VFunc _) = Some TFunc"

fun kindOfType :: "gtype \<Rightarrow> gkind" where
  "kindOfType TBool = KBool"
| "kindOfType TInt = KInt"
| "kindOfType TUint8 = KUint8"
| "kindOfType TString = KString"
| "kindOfType TIface = KInterface"
| "kindOfType TFunc = KFunc"
| "kindOfType (TStruct _ _) = KStruct"
| "kindOfType (TPtr _) = KPtr"
| "kindOfType (TSlice _) = KSlice"
| "kindOfType (TArray _ _) = KArray"
| "kindOfType (TMap _ _) = KMap"
| "kindOfType (TChan _) = KChan"

text \<open>\<^verbatim>\<open>reflect.ValueOf(v).Kind()\<close>; the zero Value of the nil interface is Invalid.\<close>

definition kindOf :: "gval \<Rightarrow> gkind" where
  "kindOf v = (case typeOf v of None \<Rightarrow> KInvalid | Some ty \<Rightarrow> kindOfType ty)"

text \<open>
  Go's comparable types: slices, maps and functions are not, an array is when
  its element type is, a struct when all its field types are.
\<close>

fun comparable :: "gtype \<Rightarrow> bool" where
  "comparable (TSlice _) = False"
| "comparable (TMap _ _) = False"
| "comparable TFunc = False"
| "comparable (TStruct _ c) = c"
| "comparable (TArray _ ty) = comparable ty"
| "comparable _ = True"

text \<open>
  \<^verbatim>\<open>x == y\<close> on two interface values: false when the dynamic types differ, a
  run-time panic when they agree on a type that is not comparable, the
  comparison of the values otherwise. Pointers are equal when they hold the same
  address; arrays are compared element by element, in order, up to the first
  difference.
\<close>

fun goEq :: "gval \<Rightarrow> gval \<Rightarrow> gopanic + bool"
  and goEqs :: "gval list \<Rightarrow> gval list \<Rightarrow> gopanic + bool" where
  "goEq x y =
     (case (typeOf x, typeOf y) of
        (None, None) \<Rightarrow> Inr True
      | (None, Some _) \<Rightarrow> Inr False
      | (Some _, None) \<Rightarrow> Inr False
      | (Some s, Some ty) \<Rightarrow>
          if s \<noteq> ty then Inr False
          else if \<not> comparable ty then Inl (RuntimeError ''comparing uncomparable type'')
          else (case (x, y) of
                  (VArray _ xs, VArray _ ys) \<Rightarrow> goEqs xs ys
                | (VPtr _ p, VPtr _ q) \<Rightarrow> Inr (map_option fst p = map_option fst q)
                | (VReader _ p _, VReader _ q _) \<Rightarrow> Inr (p = q)
                | (VReader _ p _, VPtr _ q) \<Rightarrow> Inr (Some p = map_option fst q)
                | (VPtr _ p, VReader _ q _) \<Rightarrow> Inr (map_option fst p = Some q)
                | _ \<Rightarrow> Inr (x = y)))"
| "goEqs [] _ = Inr True"
| "goEqs (x # xs) [] = Inr True"
| "goEqs (x # xs) (y # ys) =
     (case goEq x y of
        Inl p \<Rightarrow> Inl p
      | Inr b \<Rightarrow> if b then goEqs xs ys else Inr False)"

section \<open>The reflection helpers\<close>

definition reflectIsPointer :: "gval \<Rightarrow> bool" where
  "reflectIsPointer v = (kindOf v = KPtr)"

text \<open>
  \<^verbatim>\<open>reflect.ValueOf(v).IsNil()\<close> is defined on the nilable kinds and panics on
  every other one.
\<close>

fun reflectIsNil :: "gval \<Rightarrow> gopanic + bool" where
  "reflectIsNil (VPtr _ p) = Inr (p = None)"
| "reflectIsNil (VReader _ _ _) = Inr False"
| "reflectIsNil (VSlice _ xs) = Inr (xs = None)"
| "reflectIsNil (VMap _ _ m) = Inr (m = None)"
| "reflectIsNil (VChan _ c) = Inr (c = None)"
| "reflectIsNil (VFunc f) = Inr (f = None)"
| "reflectIsNil v = Inl (ReflectValueError ''reflect.Value.IsNil'' (kindOf v))"

text \<open>
  \<^verbatim>\<open>reflect.ValueOf(v).Elem().Interface()\<close>: the value a pointer points to.
  \<^verbatim>\<open>Elem\<close> of a nil pointer is the zero Value, on which \<^verbatim>\<open>Interface\<close> panics;
  \<^verbatim>\<open>Elem\<close> panics on a kind that is neither pointer nor interface.
\<close>

fun reflectElem :: "gval \<Rightarrow> gopanic + gval" where
  "reflectElem (VPtr _ (Some (_, v))) = Inr v"
| "reflectElem (VPtr _ None) = Inl (ReflectValueError ''reflect.Value.Interface'' KInvalid)"
| "reflectElem (VReader n p _) = Inr (VStruct n False p)"
| "reflectElem v = Inl (ReflectValueError ''reflect.Value.Elem'' (kindOf v))"


section \<open>Library functions used by the package\<close>

text \<open>
  Two functions of Go's standard library are taken as parameters:
  \<^verbatim>\<open>fmt.Sprintf\<close> (the formatting done by \<^verbatim>\<open>fmt.Fprintf\<close>, \<^verbatim>\<open>fmt.Sprintf\<close> and
  \<^verbatim>\<open>fmt.Errorf\<close>), from a format string and its arguments to the text, and
  \<^verbatim>\<open>reflect.DeepEqual\<close>. An argument of a format is a value, a \<^verbatim>\<open>reflect.Type\<close>
  (\<open>None\<close> the nil Type) or a \<^verbatim>\<open>time.Duration\<close> in nanoseconds.
\<close>

datatype fmtarg = ArgVal gval | ArgType "gtype option" | ArgDuration int

record lib =
  Sprintf :: "string \<Rightarrow> fmtarg list \<Rightarrow> string"
  DeepEqual :: "gval \<Rightarrow> gval \<Rightarrow> bool"

text \<open>\<^verbatim>\<open>strings.Contains(s, substr)\<close>: \<open>substr\<close> occurs in \<open>s\<close>.\<close>

fun strings_HasPrefix :: "string \<Rightarrow> string \<Rightarrow> bool" where
  "strings_HasPrefix s [] = True"
| "strings_HasPrefix [] (c # cs) = False"
| "strings_HasPrefix (d # ds) (c # cs) = (d = c \<and> strings_HasPrefix ds cs)"

fun strings_Contains :: "string \<Rightarrow> string \<Rightarrow> bool" where
  "strings_Contains [] substr = strings_HasPrefix [] substr"
| "strings_Contains (d # ds) substr =
     (if strings_HasPrefix (d # ds) substr then True else strings_Contains ds substr)"

section \<open>Assertions and messages\<close>

text \<open>
  The testing handle \<^verbatim>\<open>t\<close> is the failure sink. Its state is the list of
  strings \<^verbatim>\<open>t.Errorf\<close> has received, oldest first (each one as the format
  argument, with no further arguments). \<^verbatim>\<open>t.Helper()\<close> leaves no trace in it
  and is not modelled.
\<close>

record assertion =
  t_Errorf :: "string list"
  invert :: bool
  prefix :: string

record message =
  testMessage :: string
  testArgs :: "gval list"
  assertionPrefix :: string
  assertionMessage :: string
  assertionArgs :: "fmtarg list"
  assertionMultiline :: bool

text \<open>
  \<^verbatim>\<open>newAssertion\<close>: \<open>file\<close> and \<open>line\<close> are what \<^verbatim>\<open>runtimeCaller(2)\<close> returns,
  \<open>errs\<close> is the state of the handle.
\<close>

definition newAssertion :: "lib \<Rightarrow> string list \<Rightarrow> string \<Rightarrow> int \<Rightarrow> assertion" where
  "newAssertion L errs file line =
     \<lparr>t_Errorf = errs, invert = False,
      prefix = Sprintf L ''[%s:%d]'' [ArgVal (VString file), ArgVal (VInt line)]\<rparr>"

definition Invert :: "'a assertion_scheme \<Rightarrow> 'a assertion_scheme" where
  "Invert a = a\<lparr>invert := True\<rparr>"

text \<open>
  \<^verbatim>\<open>message\<close>: the trailing arguments of a check. With none, the test message is
  empty; otherwise the first must be a string, and anything else panics.
\<close>

definition message :: "'a assertion_scheme \<Rightarrow> gval list \<Rightarrow> gopanic + message" where
  "message a vals =
     (case vals of
        [] \<Rightarrow>
          Inr \<lparr>testMessage = [], testArgs = [], assertionPrefix = prefix a,
               assertionMessage = [], assertionArgs = [], assertionMultiline = False\<rparr>
      | v # rest \<Rightarrow>
          (case v of
             VString msg \<Rightarrow>
               Inr \<lparr>testMessage = msg, testArgs = rest, assertionPrefix = prefix a,
                    assertionMessage = [], assertionArgs = [], assertionMultiline = False\<rparr>
           | _ \<Rightarrow>
               Inl (PanicValue
                     (VString ''first parameter after expected value must be a string''))))"

text \<open>\<^verbatim>\<open>message.String\<close>. \<^verbatim>\<open>fmt.Fprintln(b)\<close> writes a newline.\<close>

definition String :: "lib \<Rightarrow> message \<Rightarrow> string" where
  "String L m =
     (if testMessage m = [] \<and> \<not> assertionMultiline m
      then assertionPrefix m @ '' '' @ Sprintf L (assertionMessage m) (assertionArgs m)
      else assertionPrefix m
           @ (if testMessage m \<noteq> []
              then ''\<newline>'' @ Sprintf L (testMessage m) (map ArgVal (testArgs m))
              else [])
           @ ''\<newline>'' @ Sprintf L (assertionMessage m) (assertionArgs m))"

text \<open>
  \<^verbatim>\<open>errorf\<close> stores the format and arguments in the message and hands the
  rendered text to \<^verbatim>\<open>t.Errorf\<close>; \<^verbatim>\<open>multiLineErrorf\<close> sets the multiline flag
  first. Every check uses its message for at most one report, so only the new
  state of the handle is returned.
\<close>

definition errorf :: "lib \<Rightarrow> message \<Rightarrow> string \<Rightarrow> fmtarg list \<Rightarrow> string list \<Rightarrow> string list" where
  "errorf L m format args errs =
     errs @ [String L (m\<lparr>assertionMessage := format, assertionArgs := args\<rparr>)]"

definition multiLineErrorf :: "lib \<Rightarrow> message \<Rightarrow> string \<Rightarrow> fmtarg list \<Rightarrow> string list \<Rightarrow> string list" where
  "multiLineErrorf L m format args errs =
     errorf L (m\<lparr>assertionMultiline := True\<rparr>) format args errs"

section \<open>Value assertions\<close>

record value_assertion = assertion +
  val :: gval

definition Assert :: "lib \<Rightarrow> string list \<Rightarrow> string \<Rightarrow> int \<Rightarrow> gval \<Rightarrow> value_assertion" where
  "Assert L errs file line v =
     (let a = newAssertion L errs file line
      in \<lparr>t_Errorf = t_Errorf a, invert = invert a, prefix = prefix a, val = v\<rparr>)"

definition Not_va :: "value_assertion \<Rightarrow> value_assertion" where
  "Not_va a = Invert a"

definition Nil_va :: "lib \<Rightarrow> value_assertion \<Rightarrow> gval list \<Rightarrow> bool outcome \<times> value_assertion" where
  "Nil_va L a msgs =
     (case message a msgs of
        Inl p \<Rightarrow> (Panicked p, a)
      | Inr msg \<Rightarrow>
          if \<not> reflectIsPointer (val a)
          then (Return False,
                a\<lparr>t_Errorf := errorf L msg ''value provided is not a pointer but is %T''
                                [ArgVal (val a)] (t_Errorf a)\<rparr>)
          else
            (case reflectIsNil (val a) of
               Inl p \<Rightarrow> (Panicked p, a)
             | Inr isNil \<Rightarrow>
                 if \<not> invert a \<and> \<not> isNil
                 then (case reflectElem (val a) of
                         Inl p \<Rightarrow> (Panicked p, a)
                       | Inr e \<Rightarrow>
                           (Return False,
                            a\<lparr>t_Errorf := multiLineErrorf L msg ''expected nil; got:\<newline>%+v''
                                            [ArgVal e] (t_Errorf a)\<rparr>))
                 else if invert a \<and> isNil
                 then (Return False,
                       a\<lparr>t_Errorf := errorf L msg ''value is nil; expected not nil'' []
                                       (t_Errorf a)\<rparr>)
                 else (Return True, a)))"

definition True_va :: "lib \<Rightarrow> value_assertion \<Rightarrow> gval list \<Rightarrow> bool outcome \<times> value_assertion" where
  "True_va L a msgs =
     (case message a msgs of
        Inl p \<Rightarrow> (Panicked p, a)
      | Inr msg \<Rightarrow>
          (case val a of
             VBool b \<Rightarrow>
               if \<not> invert a \<and> \<not> b
               then (Return False,
                     a\<lparr>t_Errorf := errorf L msg ''value is false; expected true'' []
                                     (t_Errorf a)\<rparr>)
               else if invert a \<and> b
               then (Return False,
                     a\<lparr>t_Errorf := errorf L msg ''value is true; expected false'' []
                                     (t_Errorf a)\<rparr>)
               else (Return True, a)
           | _ \<Rightarrow>
               (Return False,
                a\<lparr>t_Errorf := errorf L msg ''value is not boolean; is %T''
                                [ArgVal (val a)] (t_Errorf a)\<rparr>)))"

definition False_va :: "lib \<Rightarrow> value_assertion \<Rightarrow> gval list \<Rightarrow> bool outcome \<times> value_assertion" where
  "False_va L a msgs = True_va L (Not_va a) msgs"

definition Equals :: "lib \<Rightarrow> value_assertion \<Rightarrow> gval \<Rightarrow> gval list \<Rightarrow> bool outcome \<times> value_assertion" where
  "Equals L a exp msgs =
     (case message a msgs of
        Inl p \<Rightarrow> (Panicked p, a)
      | Inr msg \<Rightarrow>
          (let eq = DeepEqual L (val a) exp
           in if \<not> invert a \<and> \<not> eq
              then (Return False,
                    a\<lparr>t_Errorf := multiLineErrorf L msg
                                    (''%+v\<newline>\<newline>'' @ [CHR 0x09] @ ''does not equal\<newline>\<newline>%+v'')
                                    [ArgVal (val a), ArgVal exp] (t_Errorf a)\<rparr>)
              else if invert a \<and> eq
              then (Return False,
                    a\<lparr>t_Errorf := multiLineErrorf L msg ''both values are:\<newline>%+v''
                                    [ArgVal exp] (t_Errorf a)\<rparr>)
              else (Return True, a)))"

definition Equal :: "lib \<Rightarrow> value_assertion \<Rightarrow> gval \<Rightarrow> gval list \<Rightarrow> bool outcome \<times> value_assertion" where
  "Equal L a exp msgs = Equals L a exp msgs"


subsection \<open>Contains\<close>

text \<open>
  \<^verbatim>\<open>reflectContains\<close>, on the value a \<^verbatim>\<open>reflect.Value\<close> holds. Behind a pointer
  the kind is that of the pointer's element type, so a pointer to an interface
  lands in no case of the switch. The loop over a slice or an array compares
  with \<^verbatim>\<open>==\<close> and leaves at the first equal element. In the map case the source
  wraps the \<^verbatim>\<open>reflect.Value\<close> itself, \<^verbatim>\<open>reflect.ValueOf(container)\<close>, which is a
  Value of kind Struct, and \<^verbatim>\<open>MapKeys\<close> panics on every kind but Map.
\<close>

fun containsLoop :: "gval \<Rightarrow> gval list \<Rightarrow> gopanic + bool" where
  "containsLoop exp [] = Inr False"
| "containsLoop exp (x # xs) =
     (case goEq exp x of
        Inl p \<Rightarrow> Inl p
      | Inr b \<Rightarrow> if b then Inr True else containsLoop exp xs)"

fun reflectContains :: "gval \<Rightarrow> gval \<Rightarrow> gopanic + bool" where
  "reflectContains (VPtr ty None) exp = Inr False"
| "reflectContains (VPtr ty (Some (p, v))) exp =
     (if ty = TIface then Inr False else reflectContains v exp)"
| "reflectContains (VReader n p r) exp = Inr False"
| "reflectContains (VSlice ty None) exp = containsLoop exp []"
| "reflectContains (VSlice ty (Some xs)) exp = containsLoop exp xs"
| "reflectContains (VArray ty xs) exp = containsLoop exp xs"
| "reflectContains (VMap kt vt m) exp = Inl (ReflectValueError ''reflect.Value.MapKeys'' KStruct)"
| "reflectContains v exp = Inr False"

text \<open>
  The first step of \<^verbatim>\<open>Contains\<close>: a subject that is an \<^verbatim>\<open>io.Reader\<close> is read to
  its end, and when that succeeds the bytes read are stored in place of the
  subject.
\<close>

fun readAllSubject :: "gval \<Rightarrow> gval" where
  "readAllSubject (VReader n p (ReadOk data)) = VSlice TUint8 (Some (map VUint8 data))"
| "readAllSubject v = v"

text \<open>
  \<^verbatim>\<open>castString\<close>: a string as it is, a \<^verbatim>\<open>[]byte\<close> converted to a string (the nil
  slice to the empty string).
\<close>

fun byteOf :: "gval \<Rightarrow> char" where
  "byteOf (VUint8 c) = c"
| "byteOf v = CHR 0x00"

fun castString :: "gval \<Rightarrow> string option" where
  "castString (VString sval) = Some sval"
| "castString (VSlice TUint8 None) = Some []"
| "castString (VSlice TUint8 (Some dval)) = Some (map byteOf dval)"
| "castString v = None"

definition Contains :: "lib \<Rightarrow> value_assertion \<Rightarrow> gval \<Rightarrow> gval list \<Rightarrow> bool outcome \<times> value_assertion" where
  "Contains L a exp vals =
     (case message a vals of
        Inl p \<Rightarrow> (Panicked p, a)
      | Inr msg \<Rightarrow>
          (let a1 = a\<lparr>val := readAllSubject (val a)\<rparr>;
               stringCompared =
                 (case exp of
                    VString sexp \<Rightarrow>
                      (case castString (val a1) of
                         Some sval \<Rightarrow> Some (VString sval, strings_Contains sval sexp)
                       | None \<Rightarrow> None)
                  | _ \<Rightarrow> None);
               compared =
                 (case stringCompared of
                    Some (container, contains) \<Rightarrow> Inr (container, contains)
                  | None \<Rightarrow>
                      (case reflectContains (val a1) exp of
                         Inl p \<Rightarrow> Inl p
                       | Inr contains \<Rightarrow> Inr (val a1, contains)))
           in case compared of
                Inl p \<Rightarrow> (Panicked p, a1)
              | Inr (container, contains) \<Rightarrow>
                  if \<not> contains \<and> \<not> invert a1
                  then (Return False,
                        a1\<lparr>t_Errorf := multiLineErrorf L msg
                                         (''%+v\<newline>\<newline>'' @ [CHR 0x09] @ ''does not contain\<newline>\<newline>%+v'')
                                         [ArgVal container, ArgVal exp] (t_Errorf a1)\<rparr>)
                  else if contains \<and> invert a1
                  then (Return False,
                        a1\<lparr>t_Errorf := multiLineErrorf L msg
                                         (''%+v\<newline>\<newline>'' @ [CHR 0x09] @ ''does contain\<newline>\<newline>%+v'')
                                         [ArgVal container, ArgVal exp] (t_Errorf a1)\<rparr>)
                  else (Return True, a1)))"

definition Contain :: "lib \<Rightarrow> value_assertion \<Rightarrow> gval \<Rightarrow> gval list \<Rightarrow> bool outcome \<times> value_assertion" where
  "Contain L a exp vals = Contains L a exp vals"

subsection \<open>HasKey\<close>

text \<open>
  \<^verbatim>\<open>MapIndex\<close> on a map whose key type is the type of \<open>key\<close>: whether the key is
  present. The run-time hashes the key first, also in a nil or empty map, and
  panics on a key that holds a value of a type that is not comparable; those
  are the keys that cannot be compared with themselves.
\<close>

definition mapIndexFound :: "(gval \<times> gval) list option \<Rightarrow> gval \<Rightarrow> gopanic + bool" where
  "mapIndexFound m key =
     (case goEq key key of
        Inl p \<Rightarrow> Inl (RuntimeError ''hash of unhashable type'')
      | Inr b \<Rightarrow>
          (case m of
             None \<Rightarrow> Inr False
           | Some entries \<Rightarrow> Inr (list_ex (\<lambda>kv. goEq key (fst kv) = Inr True) entries)))"

text \<open>
  \<^verbatim>\<open>reflectHasKey\<close> returns a boolean and an error; the error is kept as its text
  (\<^verbatim>\<open>err.Error()\<close>), \<open>None\<close> for nil. A nil interface has no key and gives no
  error. The values whose type has kind Map are the \<open>VMap\<close>s, and \<open>kt\<close> is then
  \<^verbatim>\<open>containerType.Key()\<close>; the type of a nil key is the nil Type, which differs
  from every key type.
\<close>

definition reflectHasKey :: "lib \<Rightarrow> gval \<Rightarrow> gval \<Rightarrow> gopanic + (bool \<times> string option)" where
  "reflectHasKey L v key =
     (case v of
        VNil \<Rightarrow> Inr (False, None)
      | VMap kt vt m \<Rightarrow>
          if Some kt \<noteq> typeOf key
          then Inr (False,
                    Some (Sprintf L ''map is keyed by type %T; key provided is type %T''
                           [ArgType (Some kt), ArgType (typeOf key)]))
          else (case mapIndexFound m key of
                  Inl p \<Rightarrow> Inl p
                | Inr found \<Rightarrow> Inr (found, None))
      | _ \<Rightarrow>
          Inr (False, Some (Sprintf L ''value of type %T is not a map'' [ArgVal v])))"

definition HasKey :: "lib \<Rightarrow> value_assertion \<Rightarrow> gval \<Rightarrow> gval list \<Rightarrow> bool outcome \<times> value_assertion" where
  "HasKey L a key vals =
     (case message a vals of
        Inl p \<Rightarrow> (Panicked p, a)
      | Inr msg \<Rightarrow>
          (case reflectHasKey L (val a) key of
             Inl p \<Rightarrow> (Panicked p, a)
           | Inr (hasKey, Some err) \<Rightarrow>
               False_va L
                 (Not_va (a\<lparr>t_Errorf := errorf L msg ''hasKey error: %s''
                                           [ArgVal (VString err)] (t_Errorf a)\<rparr>))
                 []
           | Inr (hasKey, None) \<Rightarrow>
               if \<not> hasKey \<and> \<not> invert a
               then (Return False,
                     a\<lparr>t_Errorf := errorf L msg
                                     (''%+v\<newline>\<newline>'' @ [CHR 0x09] @ ''does not have key\<newline>\<newline>%+v\<newline>'')
                                     [ArgVal (val a), ArgVal key] (t_Errorf a)\<rparr>)
               else if hasKey \<and> invert a
               then (Return False,
                     a\<lparr>t_Errorf := errorf L msg
                                     (''%+v\<newline>\<newline>'' @ [CHR 0x09] @ ''does have key\<newline>\<newline>%+v'')
                                     [ArgVal (val a), ArgVal key] (t_Errorf a)\<rparr>)
               else (Return True, a)))"

definition HaveKey :: "lib \<Rightarrow> value_assertion \<Rightarrow> gval \<Rightarrow> gval list \<Rightarrow> bool outcome \<times> value_assertion" where
  "HaveKey L a key vals = HasKey L a key vals"

section \<open>Function assertions\<close>

text \<open>
  The asserted function is known by what a call does: it returns, or it panics
  with a value, which is what \<^verbatim>\<open>recover\<close> then returns. A function that never
  returns is outside the model. \<^verbatim>\<open>AssertFn\<close> stores a wrapper that calls the
  function and returns true; \<open>call_fn\<close> is a call of that wrapper.
\<close>

datatype callable = Completes | Panics gval

record function_assertion = assertion +
  fn :: callable

definition AssertFn :: "lib \<Rightarrow> string list \<Rightarrow> string \<Rightarrow> int \<Rightarrow> callable \<Rightarrow> function_assertion" where
  "AssertFn L errs file line f =
     (let a = newAssertion L errs file line
      in \<lparr>t_Errorf = t_Errorf a, invert = invert a, prefix = prefix a, fn = f\<rparr>)"

definition Not_fa :: "function_assertion \<Rightarrow> function_assertion" where
  "Not_fa a = Invert a"

fun call_fn :: "callable \<Rightarrow> bool outcome" where
  "call_fn Completes = Return True"
| "call_fn (Panics r) = Panicked (PanicValue r)"

text \<open>\<^verbatim>\<open>recover()\<close> in the deferred call: the value of the panic, nil without one.\<close>

fun recover :: "bool outcome \<Rightarrow> gval" where
  "recover (Panicked (PanicValue r)) = r"
| "recover res = VNil"

text \<open>
  \<^verbatim>\<open>deferExpectedPanic\<close> writes the named result of \<^verbatim>\<open>Panic\<close> through
  \<^verbatim>\<open>retbool\<close>: three statements in sequence, the last one unconditional.
\<close>

definition deferExpectedPanic ::
  "lib \<Rightarrow> function_assertion \<Rightarrow> gval \<Rightarrow> message \<Rightarrow> bool \<Rightarrow> bool \<times> function_assertion" where
  "deferExpectedPanic L a r msg retbool =
     (let (ret1, a1) =
            (if r = VNil \<and> \<not> invert a
             then (False, a\<lparr>t_Errorf := errorf L msg ''did not panic'' [] (t_Errorf a)\<rparr>)
             else (retbool, a));
          (ret2, a2) =
            (if r \<noteq> VNil \<and> invert a1
             then (False, a1\<lparr>t_Errorf := errorf L msg ''code paniced with err: %s''
                                            [ArgVal r] (t_Errorf a1)\<rparr>)
             else (ret1, a1))
      in (True, a2))"

text \<open>
  \<^verbatim>\<open>Panic\<close>: a panic of \<^verbatim>\<open>message\<close> comes before the \<^verbatim>\<open>defer\<close> and is not
  recovered. Otherwise the result is what the wrapper returned (the zero value
  false when it panicked), as rewritten by the deferred call.
\<close>

definition Panic :: "lib \<Rightarrow> function_assertion \<Rightarrow> gval list \<Rightarrow> bool outcome \<times> function_assertion" where
  "Panic L a vals =
     (case message a vals of
        Inl p \<Rightarrow> (Panicked p, a)
      | Inr msg \<Rightarrow>
          (let res = call_fn (fn a);
               ret = (case res of Return b \<Rightarrow> b | Panicked p \<Rightarrow> False);
               (ret', a') = deferExpectedPanic L a (recover res) msg ret
           in (Return ret', a')))"

definition Panics_fa :: "lib \<Rightarrow> function_assertion \<Rightarrow> gval list \<Rightarrow> bool outcome \<times> function_assertion" where
  "Panics_fa L a vals = Panic L a vals"

section \<open>Promises\<close>

text \<open>
  \<^verbatim>\<open>Promise\<close> starts a goroutine that calls the wrapper and sends its result on
  the channel \<^verbatim>\<open>done\<close>. \<open>done_ch\<close> is the value that goroutine sends, \<open>None\<close>
  when the function panics and nothing is ever sent.
\<close>

record promise = assertion +
  done_ch :: "bool option"

definition Promise :: "function_assertion \<Rightarrow> promise" where
  "Promise a =
     \<lparr>t_Errorf = t_Errorf a, invert = invert a, prefix = prefix a,
      done_ch = (case call_fn (fn a) of Return b \<Rightarrow> Some b | Panicked p \<Rightarrow> None)\<rparr>"

definition Not_p :: "promise \<Rightarrow> promise" where
  "Not_p p = Invert p"

text \<open>
  The \<^verbatim>\<open>select\<close> of \<^verbatim>\<open>Timeout\<close> proceeds with one of its two cases; which one is
  an input of the model. The first case needs a value on the channel.
\<close>

datatype select_case = DoneFirst | TimerFirst

definition Timeout :: "lib \<Rightarrow> promise \<Rightarrow> int \<Rightarrow> select_case \<Rightarrow> gval list \<Rightarrow> bool outcome \<times> promise" where
  "Timeout L p d sel vals =
     (case message p vals of
        Inl e \<Rightarrow> (Panicked e, p)
      | Inr msg \<Rightarrow>
          (case (sel, done_ch p) of
             (DoneFirst, Some ret) \<Rightarrow>
               if invert p
               then (Return False,
                     p\<lparr>t_Errorf := errorf L msg
                                     ''function didn't meet the minimum duration of %s''
                                     [ArgDuration d] (t_Errorf p)\<rparr>)
               else (Return ret, p)
           | _ \<Rightarrow>
               if \<not> invert p
               then (Return False,
                     p\<lparr>t_Errorf := errorf L msg ''function reached timeout of %s''
                                     [ArgDuration d] (t_Errorf p)\<rparr>)
               else (Return True, p)))"


section \<open>A fixed instance of the library parameters\<close>

text \<open>
  For evaluating the checks on concrete inputs the two library functions must
  be some functions. \<open>libStub\<close> leaves every format as it is written (the verbs
  are not expanded) and compares values of the model by equality. Only the
  evaluations that name \<open>libStub\<close> depend on this choice; every other statement
  holds for any \<open>L\<close>.
\<close>

definition libStub :: lib where
  "libStub = \<lparr>Sprintf = (\<lambda>format args. format), DeepEqual = (\<lambda>x y. x = y)\<rparr>"

section \<open>Basic facts\<close>

lemma message_invert [simp]: "message (a\<lparr>invert := i\<rparr>) vals = message a vals"
  by (simp add: message_def split: list.split gval.split)

lemma message_t_Errorf [simp]: "message (a\<lparr>t_Errorf := e\<rparr>) vals = message a vals"
  by (simp add: message_def split: list.split gval.split)

lemma message_nil:
  "message a [] =
     Inr \<lparr>testMessage = [], testArgs = [], assertionPrefix = prefix a,
          assertionMessage = [], assertionArgs = [], assertionMultiline = False\<rparr>"
  by (simp add: message_def)

lemma message_not_string:
  "\<forall>s. v \<noteq> VString s \<Longrightarrow>
   message a (v # rest) =
     Inl (PanicValue (VString ''first parameter after expected value must be a string''))"
  by (cases v) (simp_all add: message_def)

lemma Nil_va_not_pointer:
  assumes "message a msgs = Inr msg" and "kindOf (val a) \<noteq> KPtr"
  shows "Nil_va L a msgs =
           (Return False,
            a\<lparr>t_Errorf := t_Errorf a @
               [String L (msg\<lparr>assertionMessage := ''value provided is not a pointer but is %T'',
                               assertionArgs := [ArgVal (val a)]\<rparr>)]\<rparr>)"
  using assms by (simp add: Nil_va_def reflectIsPointer_def errorf_def)

lemma True_va_not_bool:
  assumes "message a msgs = Inr msg" and "\<forall>b. val a \<noteq> VBool b"
  shows "True_va L a msgs =
           (Return False,
            a\<lparr>t_Errorf := t_Errorf a @
               [String L (msg\<lparr>assertionMessage := ''value is not boolean; is %T'',
                               assertionArgs := [ArgVal (val a)]\<rparr>)]\<rparr>)"
  using assms by (cases "val a") (auto simp add: True_va_def errorf_def)

lemma deferExpectedPanic_fst: "fst (deferExpectedPanic L a r msg retbool) = True"
  by (simp add: deferExpectedPanic_def Let_def split: prod.split)

lemma val_Nil_va: "val (snd (Nil_va L a msgs)) = val a"
  by (simp add: Nil_va_def split: sum.split)

lemma val_True_va: "val (snd (True_va L a msgs)) = val a"
  by (simp add: True_va_def split: sum.split gval.split)

lemma val_False_va: "val (snd (False_va L a msgs)) = val a"
  by (simp add: False_va_def val_True_va Not_va_def Invert_def)

lemma val_Equals: "val (snd (Equals L a exp msgs)) = val a"
  by (simp add: Equals_def Let_def split: sum.split)

lemma val_HasKey: "val (snd (HasKey L a key msgs)) = val a"
  by (simp add: HasKey_def val_False_va Not_va_def Invert_def
        split: sum.split prod.split option.split)

lemma val_Contains:
  "val (snd (Contains L a exp msgs)) =
     (case message a msgs of Inl p \<Rightarrow> val a | Inr m \<Rightarrow> readAllSubject (val a))"
  by (simp add: Contains_def Let_def split: sum.split prod.split option.split gval.split)

lemma readAllSubject_other:
  "\<forall>n p d. v \<noteq> VReader n p (ReadOk d) \<Longrightarrow> readAllSubject v = v"
  by (cases v rule: readAllSubject.cases) simp_all

text \<open>
  \<^verbatim>\<open>reflectHasKey\<close> returns an error exactly for a subject that is neither the
  nil interface nor a map, and for a map whose key type is not the type of the
  key.
\<close>

lemma reflectHasKey_error_iff:
  "(\<exists>b err. reflectHasKey L v key = Inr (b, Some err)) \<longleftrightarrow>
     v \<noteq> VNil \<and> (\<forall>kt vt m. v = VMap kt vt m \<longrightarrow> Some kt \<noteq> typeOf key)"
  by (cases v) (auto simp add: reflectHasKey_def split: sum.splits)

section \<open>The message formatter\<close>

text \<open>
  Claim C7. The formatter renders the compact form, the prefix, one space and
  the formatted assertion message, exactly when the test message is empty (the
  formatter's only notion of no test message) and the assertion message is not
  flagged multiline. Otherwise it renders the prefix, then a newline and the
  formatted test message if there is one, then a newline and the formatted
  assertion message.
\<close>

theorem String_compact_or_expanded:
  "(testMessage m = [] \<and> \<not> assertionMultiline m \<longrightarrow>
      String L m = assertionPrefix m @ '' '' @ Sprintf L (assertionMessage m) (assertionArgs m))
   \<and> (testMessage m = [] \<and> assertionMultiline m \<longrightarrow>
      String L m = assertionPrefix m @ ''\<newline>'' @ Sprintf L (assertionMessage m) (assertionArgs m))
   \<and> (testMessage m \<noteq> [] \<longrightarrow>
      String L m = assertionPrefix m
                   @ ''\<newline>'' @ Sprintf L (testMessage m) (map ArgVal (testArgs m))
                   @ ''\<newline>'' @ Sprintf L (assertionMessage m) (assertionArgs m))
   \<and> (String L m = assertionPrefix m @ '' '' @ Sprintf L (assertionMessage m) (assertionArgs m)
        \<longleftrightarrow> testMessage m = [] \<and> \<not> assertionMultiline m)"
  by (simp add: String_def)

text \<open>
  The three shapes at the messages of the package's examples: a compact line, a
  multiline assertion message without a test message, and a test message.
\<close>

theorem String_compact_or_expanded_witness:
  "String libStub
     \<lparr>testMessage = [], testArgs = [], assertionPrefix = ''[file_test.go:123]'',
      assertionMessage = ''did not panic'', assertionArgs = [], assertionMultiline = False\<rparr>
   = ''[file_test.go:123] did not panic''
   \<and> String libStub
     \<lparr>testMessage = [], testArgs = [], assertionPrefix = ''[file_test.go:123]'',
      assertionMessage = ''both values are:\<newline>%+v'', assertionArgs = [ArgVal (VString ''wanted'')],
      assertionMultiline = True\<rparr>
   = ''[file_test.go:123]\<newline>both values are:\<newline>%+v''
   \<and> String libStub
     \<lparr>testMessage = ''we wanted a false here'', testArgs = [],
      assertionPrefix = ''[file_test.go:123]'',
      assertionMessage = ''value is true; expected false'', assertionArgs = [],
      assertionMultiline = False\<rparr>
   = ''[file_test.go:123]\<newline>we wanted a false here\<newline>value is true; expected false''"
  using String_compact_or_expanded
          [of "\<lparr>testMessage = [], testArgs = [], assertionPrefix = ''[file_test.go:123]'',
                assertionMessage = ''did not panic'', assertionArgs = [],
                assertionMultiline = False\<rparr>" libStub]
        String_compact_or_expanded
          [of "\<lparr>testMessage = [], testArgs = [], assertionPrefix = ''[file_test.go:123]'',
                assertionMessage = ''both values are:\<newline>%+v'',
                assertionArgs = [ArgVal (VString ''wanted'')], assertionMultiline = True\<rparr>" libStub]
        String_compact_or_expanded
          [of "\<lparr>testMessage = ''we wanted a false here'', testArgs = [],
                assertionPrefix = ''[file_test.go:123]'',
                assertionMessage = ''value is true; expected false'', assertionArgs = [],
                assertionMultiline = False\<rparr>" libStub]
  by (simp add: libStub_def)

section \<open>Usage errors\<close>

text \<open>
  Claim C8. When trailing message arguments are given and the first is not a
  string, every terminal check panics with the usage message: no boolean is
  returned and the failure sink is not called. \<^verbatim>\<open>False\<close> has set the inversion
  flag by then; the sink is as it was.
\<close>

theorem usage_error_panics:
  assumes "\<forall>s. v \<noteq> VString s"
  shows "Nil_va L a (v # rest) =
           (Panicked (PanicValue (VString ''first parameter after expected value must be a string'')), a)
       \<and> True_va L a (v # rest) =
           (Panicked (PanicValue (VString ''first parameter after expected value must be a string'')), a)
       \<and> False_va L a (v # rest) =
           (Panicked (PanicValue (VString ''first parameter after expected value must be a string'')),
            Not_va a)
       \<and> t_Errorf (Not_va a) = t_Errorf a
       \<and> Equals L a exp (v # rest) =
           (Panicked (PanicValue (VString ''first parameter after expected value must be a string'')), a)
       \<and> Contains L a exp (v # rest) =
           (Panicked (PanicValue (VString ''first parameter after expected value must be a string'')), a)
       \<and> HasKey L a key (v # rest) =
           (Panicked (PanicValue (VString ''first parameter after expected value must be a string'')), a)
       \<and> Panic L fa (v # rest) =
           (Panicked (PanicValue (VString ''first parameter after expected value must be a string'')), fa)
       \<and> Timeout L p d sel (v # rest) =
           (Panicked (PanicValue (VString ''first parameter after expected value must be a string'')), p)"
  by (simp add: message_not_string [OF assms] Nil_va_def True_va_def False_va_def Not_va_def
        Invert_def Equals_def Contains_def HasKey_def Panic_def Timeout_def)

theorem usage_error_panics_witness:
  "Nil_va libStub \<lparr>t_Errorf = [], invert = False, prefix = ''[file_test.go:123]'',
                   val = VString ''value''\<rparr> [VInt 42, VString ''late message'']
   = (Panicked (PanicValue (VString ''first parameter after expected value must be a string'')),
      \<lparr>t_Errorf = [], invert = False, prefix = ''[file_test.go:123]'', val = VString ''value''\<rparr>)
   \<and> Timeout libStub \<lparr>t_Errorf = [], invert = False, prefix = ''[file_test.go:123]'',
                       done_ch = Some True\<rparr> 1000000 DoneFirst [VInt 42, VString ''late message'']
   = (Panicked (PanicValue (VString ''first parameter after expected value must be a string'')),
      \<lparr>t_Errorf = [], invert = False, prefix = ''[file_test.go:123]'', done_ch = Some True\<rparr>)"
  using usage_error_panics [of "VInt 42" libStub
      "\<lparr>t_Errorf = [], invert = False, prefix = ''[file_test.go:123]'', val = VString ''value''\<rparr>"
      "[VString ''late message'']" _ _ _
      "\<lparr>t_Errorf = [], invert = False, prefix = ''[file_test.go:123]'', done_ch = Some True\<rparr>"
      1000000 DoneFirst]
  by simp


section \<open>Type mismatches\<close>

text \<open>
  Claim C6. Type-mismatch failures ignore the inversion flag. For a subject
  that is not a pointer, \<^verbatim>\<open>Nil\<close> reports "value provided is not a pointer but is
  %T" with the subject as argument and returns false, whatever the flag \<open>i\<close>;
  for a subject that is not a boolean, \<^verbatim>\<open>True\<close> reports "value is not boolean;
  is %T" and returns false, whatever the flag.
\<close>

theorem type_mismatch_ignores_inversion:
  assumes "message a msgs = Inr msg"
  shows "(\<not> reflectIsPointer (val a) \<longrightarrow>
            Nil_va L (a\<lparr>invert := i\<rparr>) msgs =
              (Return False,
               a\<lparr>invert := i,
                 t_Errorf := t_Errorf a @
                   [String L (msg\<lparr>assertionMessage := ''value provided is not a pointer but is %T'',
                                   assertionArgs := [ArgVal (val a)]\<rparr>)]\<rparr>))
       \<and> ((\<forall>b. val a \<noteq> VBool b) \<longrightarrow>
            True_va L (a\<lparr>invert := i\<rparr>) msgs =
              (Return False,
               a\<lparr>invert := i,
                 t_Errorf := t_Errorf a @
                   [String L (msg\<lparr>assertionMessage := ''value is not boolean; is %T'',
                                   assertionArgs := [ArgVal (val a)]\<rparr>)]\<rparr>))"
proof -
  have m: "message (a\<lparr>invert := i\<rparr>) msgs = Inr msg"
    using assms by simp
  show ?thesis
    using Nil_va_not_pointer [OF m, of L] True_va_not_bool [OF m, of L]
    by (simp add: reflectIsPointer_def)
qed

text \<open>The string subject of the package's examples, on an inverted chain.\<close>

theorem type_mismatch_ignores_inversion_witness:
  "Nil_va libStub \<lparr>t_Errorf = [], invert = True, prefix = ''[file_test.go:123]'',
                   val = VString ''value''\<rparr> []
   = (Return False,
      \<lparr>t_Errorf = [''[file_test.go:123] value provided is not a pointer but is %T''],
       invert = True, prefix = ''[file_test.go:123]'', val = VString ''value''\<rparr>)
   \<and> True_va libStub \<lparr>t_Errorf = [], invert = True, prefix = ''[file_test.go:123]'',
                      val = VString ''value''\<rparr> []
   = (Return False,
      \<lparr>t_Errorf = [''[file_test.go:123] value is not boolean; is %T''],
       invert = True, prefix = ''[file_test.go:123]'', val = VString ''value''\<rparr>)"
  using type_mismatch_ignores_inversion
          [of "\<lparr>t_Errorf = [], invert = False, prefix = ''[file_test.go:123]'',
                val = VString ''value''\<rparr>" "[]" _ libStub True]
  by (simp add: message_def reflectIsPointer_def kindOf_def String_def libStub_def)

text \<open>
  Claim C9. \<^verbatim>\<open>Nil\<close> accepts only subjects of kind pointer. For a subject \<open>v\<close> of
  any other kind it reports "value provided is not a pointer but is %T" and
  returns false, whatever the inversion flag \<open>i\<close>. The nil interface and the nil
  map, slice, channel and function are such subjects: their kinds are Invalid,
  Map, Slice, Chan and Func.
\<close>

theorem Nil_rejects_non_pointer_kinds:
  assumes "message a msgs = Inr msg" and "kindOf v \<noteq> KPtr"
  shows "Nil_va L (a\<lparr>val := v, invert := i\<rparr>) msgs =
           (Return False,
            a\<lparr>val := v, invert := i,
              t_Errorf := t_Errorf a @
                [String L (msg\<lparr>assertionMessage := ''value provided is not a pointer but is %T'',
                                assertionArgs := [ArgVal v]\<rparr>)]\<rparr>)
       \<and> kindOf VNil = KInvalid
       \<and> kindOf (VMap kt vt None) = KMap
       \<and> kindOf (VSlice et None) = KSlice
       \<and> kindOf (VChan et None) = KChan
       \<and> kindOf (VFunc None) = KFunc"
proof -
  have m: "message (a\<lparr>val := v, invert := i\<rparr>) msgs = Inr msg"
    using assms(1) by (simp add: message_def split: list.splits gval.splits)
  show ?thesis
    using Nil_va_not_pointer [OF m, of L] assms(2)
    by (simp add: kindOf_def)
qed

text \<open>A nil map of strings to ints, on an inverted chain.\<close>

theorem Nil_rejects_non_pointer_kinds_witness:
  "Nil_va libStub \<lparr>t_Errorf = [], invert = True, prefix = ''[file_test.go:123]'',
                   val = VMap TString TInt None\<rparr> []
   = (Return False,
      \<lparr>t_Errorf = [''[file_test.go:123] value provided is not a pointer but is %T''],
       invert = True, prefix = ''[file_test.go:123]'', val = VMap TString TInt None\<rparr>)"
  using Nil_rejects_non_pointer_kinds
          [of "\<lparr>t_Errorf = [], invert = False, prefix = ''[file_test.go:123]'', val = VNil\<rparr>"
              "[]" _ "VMap TString TInt None" libStub True]
  by (simp add: message_def kindOf_def String_def libStub_def)

section \<open>Panic\<close>

text \<open>
  Claim C1 says that \<^verbatim>\<open>Panic\<close> returns false in its two failing cases. The code
  reports both failures and then returns true: on a function that returns, not
  inverted, the sink receives "did not panic"; on a function that panics,
  inverted, it receives "code paniced with err: %s" with the recovered value;
  and no call of \<^verbatim>\<open>Panic\<close> or \<^verbatim>\<open>Panics\<close> returns false, because the last
  statement of \<^verbatim>\<open>deferExpectedPanic\<close> sets the result to true.
\<close>

theorem Panic_reports_but_returns_true:
  "Panic L (a\<lparr>invert := False, fn := Completes\<rparr>) [] =
     (Return True,
      a\<lparr>invert := False, fn := Completes,
        t_Errorf := t_Errorf a @ [prefix a @ '' '' @ Sprintf L ''did not panic'' []]\<rparr>)
   \<and> Panic L (a\<lparr>invert := True, fn := Panics (VString e)\<rparr>) [] =
     (Return True,
      a\<lparr>invert := True, fn := Panics (VString e),
        t_Errorf := t_Errorf a @
          [prefix a @ '' '' @ Sprintf L ''code paniced with err: %s'' [ArgVal (VString e)]]\<rparr>)
   \<and> fst (Panic L a vals) \<noteq> Return False
   \<and> fst (Panics_fa L a vals) \<noteq> Return False"
proof -
  have "fst (Panic L a vals) \<noteq> Return False"
  proof (cases "message a vals")
    case (Inl p)
    then show ?thesis by (simp add: Panic_def)
  next
    case (Inr msg)
    then show ?thesis
      by (simp add: Panic_def Let_def case_prod_beta deferExpectedPanic_fst)
  qed
  then show ?thesis
    by (simp add: Panics_fa_def Panic_def message_nil deferExpectedPanic_def errorf_def String_def)
qed

section \<open>Contains on a map\<close>

text \<open>
  Claim C3 says that \<^verbatim>\<open>Contains\<close> on a mapping returns whether the expected
  value is among the map's values, and that nothing is thrown. The code panics
  on every map subject: with no message arguments the panic is the
  \<^verbatim>\<open>reflect.ValueError\<close> of \<^verbatim>\<open>MapKeys\<close> called on a Value of kind Struct, and
  with any message arguments the call panics all the same.
\<close>

theorem Contains_map_subject_panics:
  "Contains L (a\<lparr>val := VMap kt vt m\<rparr>) exp [] =
     (Panicked (ReflectValueError ''reflect.Value.MapKeys'' KStruct), a\<lparr>val := VMap kt vt m\<rparr>)
   \<and> (\<exists>p. fst (Contains L (a\<lparr>val := VMap kt vt m\<rparr>) exp vals) = Panicked p)
   \<and> Contain L (a\<lparr>val := VMap kt vt m\<rparr>) exp [] =
     (Panicked (ReflectValueError ''reflect.Value.MapKeys'' KStruct), a\<lparr>val := VMap kt vt m\<rparr>)"
  by (cases exp) (simp_all add: Contain_def Contains_def message_nil split: sum.split)

section \<open>Timeout\<close>

text \<open>
  Claim C5. \<^verbatim>\<open>Timeout\<close> has four outcomes. When the completion is received
  first (the wrapper of a function that returns sends true): not inverted, it
  returns true and reports nothing; inverted, it returns false and reports
  "function didn't meet the minimum duration of %s" with the duration. When the
  timer fires first: not inverted, it returns false and reports "function
  reached timeout of %s" with the duration; inverted, it returns true and
  reports nothing.
\<close>

theorem Timeout_four_outcomes:
  assumes "message p vals = Inr msg"
  shows "Timeout L (p\<lparr>invert := False, done_ch := Some True\<rparr>) d DoneFirst vals =
           (Return True, p\<lparr>invert := False, done_ch := Some True\<rparr>)
       \<and> Timeout L (p\<lparr>invert := True, done_ch := Some True\<rparr>) d DoneFirst vals =
           (Return False,
            p\<lparr>invert := True, done_ch := Some True,
              t_Errorf := t_Errorf p @
                [String L (msg\<lparr>assertionMessage :=
                                 ''function didn't meet the minimum duration of %s'',
                                assertionArgs := [ArgDuration d]\<rparr>)]\<rparr>)
       \<and> Timeout L (p\<lparr>invert := False\<rparr>) d TimerFirst vals =
           (Return False,
            p\<lparr>invert := False,
              t_Errorf := t_Errorf p @
                [String L (msg\<lparr>assertionMessage := ''function reached timeout of %s'',
                                assertionArgs := [ArgDuration d]\<rparr>)]\<rparr>)
       \<and> Timeout L (p\<lparr>invert := True\<rparr>) d TimerFirst vals = (Return True, p\<lparr>invert := True\<rparr>)
       \<and> done_ch (Promise (fa\<lparr>fn := Completes\<rparr>)) = Some True"
proof -
  have m: "\<And>i c. message (p\<lparr>invert := i, done_ch := c\<rparr>) vals = message p vals"
    by (simp add: message_def split: list.splits gval.splits)
  show ?thesis
    by (simp add: Timeout_def m assms errorf_def Promise_def)
qed

text \<open>
  The two promises of the package's example: one millisecond with a message and
  the completion first, a third of a millisecond and the timer first.
\<close>

theorem Timeout_four_outcomes_witness:
  "Timeout libStub \<lparr>t_Errorf = [], invert = False, prefix = ''[file_test.go:123]'',
                    done_ch = Some True\<rparr> 1000000 DoneFirst
                   [VString ''waiting for the func to finish.'']
   = (Return True,
      \<lparr>t_Errorf = [], invert = False, prefix = ''[file_test.go:123]'', done_ch = Some True\<rparr>)
   \<and> Timeout libStub \<lparr>t_Errorf = [], invert = False, prefix = ''[file_test.go:123]'',
                    done_ch = Some True\<rparr> 333333 TimerFirst []
   = (Return False,
      \<lparr>t_Errorf = [''[file_test.go:123] function reached timeout of %s''],
       invert = False, prefix = ''[file_test.go:123]'', done_ch = Some True\<rparr>)"
  using Timeout_four_outcomes
          [of "\<lparr>t_Errorf = [], invert = False, prefix = ''[file_test.go:123]'',
                done_ch = Some True\<rparr>" "[VString ''waiting for the func to finish.'']" _
              libStub 1000000]
        Timeout_four_outcomes
          [of "\<lparr>t_Errorf = [], invert = False, prefix = ''[file_test.go:123]'',
                done_ch = Some True\<rparr>" "[]" _ libStub 333333]
  by (simp add: message_def String_def libStub_def)


section \<open>HasKey\<close>

text \<open>
  Claim C2 says that a nil subject makes \<^verbatim>\<open>HasKey\<close> report a "hasKey error"
  and return a non-pass. On the nil interface, inverted, the check passes and
  reports nothing; not inverted, what it reports is the "does not have key"
  message.
\<close>

theorem HasKey_nil_subject_counterexample:
  "HasKey libStub \<lparr>t_Errorf = [], invert = True, prefix = ''[map_test.go:7]'', val = VNil\<rparr>
     (VString ''wantedKey'') []
   = (Return True, \<lparr>t_Errorf = [], invert = True, prefix = ''[map_test.go:7]'', val = VNil\<rparr>)
   \<and> HasKey libStub \<lparr>t_Errorf = [], invert = False, prefix = ''[map_test.go:7]'', val = VNil\<rparr>
     (VString ''wantedKey'') []
   = (Return False,
      \<lparr>t_Errorf = [''[map_test.go:7] %+v\<newline>\<newline>'' @ [CHR 0x09]
                     @ ''does not have key\<newline>\<newline>%+v\<newline>''],
       invert = False, prefix = ''[map_test.go:7]'', val = VNil\<rparr>)"
  by (simp add: HasKey_def message_def reflectHasKey_def errorf_def String_def libStub_def)

text \<open>
  Claim C2, amended. For the nil interface as subject \<^verbatim>\<open>reflectHasKey\<close> returns
  false and no error, so \<^verbatim>\<open>HasKey\<close> and \<^verbatim>\<open>HaveKey\<close> treat it as a map without
  the key: not inverted, the check reports the "does not have key" message and
  returns false; inverted, it returns true and reports nothing.
\<close>

theorem HasKey_nil_subject:
  assumes "message a vals = Inr msg" and "val a = VNil"
  shows "(\<not> invert a \<longrightarrow>
            HasKey L a key vals =
              (Return False,
               a\<lparr>t_Errorf := t_Errorf a @
                  [String L (msg\<lparr>assertionMessage :=
                                   ''%+v\<newline>\<newline>'' @ [CHR 0x09] @ ''does not have key\<newline>\<newline>%+v\<newline>'',
                                 assertionArgs := [ArgVal VNil, ArgVal key]\<rparr>)]\<rparr>))
       \<and> (invert a \<longrightarrow> HasKey L a key vals = (Return True, a))
       \<and> HaveKey L a key vals = HasKey L a key vals
       \<and> reflectHasKey L VNil key = Inr (False, None)"
  using assms by (simp add: HaveKey_def HasKey_def reflectHasKey_def errorf_def)

theorem HasKey_nil_subject_witness:
  "HasKey libStub \<lparr>t_Errorf = [], invert = False, prefix = ''[map_test.go:7]'', val = VNil\<rparr>
     (VInt 3) [VString ''no key'']
   = (Return False,
      \<lparr>t_Errorf = [''[map_test.go:7]\<newline>no key\<newline>%+v\<newline>\<newline>'' @ [CHR 0x09]
                     @ ''does not have key\<newline>\<newline>%+v\<newline>''],
       invert = False, prefix = ''[map_test.go:7]'', val = VNil\<rparr>)
   \<and> HasKey libStub \<lparr>t_Errorf = [], invert = True, prefix = ''[map_test.go:7]'', val = VNil\<rparr>
     (VInt 3) [VString ''no key'']
   = (Return True, \<lparr>t_Errorf = [], invert = True, prefix = ''[map_test.go:7]'', val = VNil\<rparr>)"
  using HasKey_nil_subject
          [of "\<lparr>t_Errorf = [], invert = False, prefix = ''[map_test.go:7]'', val = VNil\<rparr>"
              "[VString ''no key'']" _ libStub "VInt 3"]
        HasKey_nil_subject
          [of "\<lparr>t_Errorf = [], invert = True, prefix = ''[map_test.go:7]'', val = VNil\<rparr>"
              "[VString ''no key'']" _ libStub "VInt 3"]
  by (simp add: message_def String_def libStub_def)

text \<open>
  Claim C10 says that on its error path \<^verbatim>\<open>HasKey\<close> always reports "value is not
  boolean" as a second message and returns false. On the boolean subject false
  the error path reports the "hasKey error" only and returns true.
\<close>

theorem HasKey_error_path_boolean_counterexample:
  "HasKey libStub \<lparr>t_Errorf = [], invert = False, prefix = ''[map_test.go:7]'',
                   val = VBool False\<rparr> (VString ''wantedKey'') []
   = (Return True,
      \<lparr>t_Errorf = [''[map_test.go:7] hasKey error: %s''], invert = True,
       prefix = ''[map_test.go:7]'', val = VBool False\<rparr>)"
  by (simp add: HasKey_def message_def reflectHasKey_def errorf_def String_def libStub_def
        False_va_def True_va_def Not_va_def Invert_def)

text \<open>
  Claim C10, amended. Whenever \<^verbatim>\<open>reflectHasKey\<close> returns an error and the
  subject is not a boolean, \<^verbatim>\<open>HasKey\<close> reports the "hasKey error: %s" message
  with the error's text, then, through \<^verbatim>\<open>Not().False()\<close> on the same chain,
  reports the compact message "value is not boolean; is %T" with the subject,
  leaves the inversion flag set, and returns false.
\<close>

theorem HasKey_error_path_non_boolean:
  assumes "message a vals = Inr msg"
    and "reflectHasKey L (val a) key = Inr (b, Some err)"
    and "\<forall>x. val a \<noteq> VBool x"
  shows "HasKey L a key vals =
           (Return False,
            a\<lparr>t_Errorf := t_Errorf a @
                 [String L (msg\<lparr>assertionMessage := ''hasKey error: %s'',
                                 assertionArgs := [ArgVal (VString err)]\<rparr>),
                  prefix a @ '' '' @ Sprintf L ''value is not boolean; is %T'' [ArgVal (val a)]],
              invert := True\<rparr>)"
proof -
  let ?a1 = "Not_va (Not_va (a\<lparr>t_Errorf := errorf L msg ''hasKey error: %s''
                                  [ArgVal (VString err)] (t_Errorf a)\<rparr>))"
  have v: "\<forall>x. val ?a1 \<noteq> VBool x"
    using assms(3) by (simp add: Not_va_def Invert_def)
  have m: "message ?a1 [] =
             Inr \<lparr>testMessage = [], testArgs = [], assertionPrefix = prefix a,
                  assertionMessage = [], assertionArgs = [], assertionMultiline = False\<rparr>"
    by (simp add: message_def Not_va_def Invert_def)
  have "HasKey L a key vals = True_va L ?a1 []"
    using assms(1,2) by (simp add: HasKey_def False_va_def)
  then show ?thesis
    using True_va_not_bool [OF m v, of L]
    by (simp add: Not_va_def Invert_def errorf_def String_def)
qed

text \<open>The map of the package's example, probed with an int key.\<close>

theorem HasKey_error_path_non_boolean_witness:
  "HasKey libStub \<lparr>t_Errorf = [], invert = False, prefix = ''[map_test.go:7]'',
                   val = VMap TString TString (Some [(VString ''gotKey'', VString ''got'')])\<rparr>
     (VInt 1) []
   = (Return False,
      \<lparr>t_Errorf = [''[map_test.go:7] hasKey error: %s'',
                   ''[map_test.go:7] value is not boolean; is %T''],
       invert = True, prefix = ''[map_test.go:7]'',
       val = VMap TString TString (Some [(VString ''gotKey'', VString ''got'')])\<rparr>)"
  using HasKey_error_path_non_boolean
          [of "\<lparr>t_Errorf = [], invert = False, prefix = ''[map_test.go:7]'',
                val = VMap TString TString (Some [(VString ''gotKey'', VString ''got'')])\<rparr>"
              "[]" _ libStub "VInt 1" False
              "''map is keyed by type %T; key provided is type %T''"]
  by (simp add: message_def reflectHasKey_def String_def libStub_def)

section \<open>The subject across a check\<close>

text \<open>
  Claim C4 says that no terminal check changes the subject stored in the
  assertion. \<^verbatim>\<open>Contains\<close> on a reader stores the bytes it read in place of the
  reader.
\<close>

theorem Contains_reader_replaces_subject_counterexample:
  "val (snd (Contains libStub
               \<lparr>t_Errorf = [], invert = False, prefix = ''[read_test.go:9]'',
                val = VReader ''bytes.Buffer'' 1 (ReadOk ''hi'')\<rparr>
               (VString ''h'') []))
   = VSlice TUint8 (Some [VUint8 CHR ''h'', VUint8 CHR ''i''])
   \<and> VSlice TUint8 (Some [VUint8 CHR ''h'', VUint8 CHR ''i''])
       \<noteq> VReader ''bytes.Buffer'' 1 (ReadOk ''hi'')"
  by (simp add: Contains_def message_def Let_def)

text \<open>
  Claim C4, amended. \<^verbatim>\<open>Nil\<close>, \<^verbatim>\<open>True\<close>, \<^verbatim>\<open>False\<close>, \<^verbatim>\<open>Equals\<close> and \<^verbatim>\<open>HasKey\<close>
  leave the subject as it was, whatever their outcome. \<^verbatim>\<open>Contains\<close> leaves it
  as it was when the message arguments are a usage error and when the subject is
  not a reader read without error; for a reader read without error it stores
  the bytes read, as a byte slice, in place of the subject.
\<close>

theorem checks_keep_subject_except_reader:
  "val (snd (Nil_va L a msgs)) = val a
   \<and> val (snd (True_va L a msgs)) = val a
   \<and> val (snd (False_va L a msgs)) = val a
   \<and> val (snd (Equals L a exp msgs)) = val a
   \<and> val (snd (HasKey L a key msgs)) = val a
   \<and> val (snd (Contains L a exp msgs)) =
       (case message a msgs of Inl p \<Rightarrow> val a | Inr m \<Rightarrow> readAllSubject (val a))
   \<and> ((\<forall>n p d. val a \<noteq> VReader n p (ReadOk d)) \<longrightarrow> val (snd (Contains L a exp msgs)) = val a)
   \<and> readAllSubject (VReader n p (ReadOk d)) = VSlice TUint8 (Some (map VUint8 d))"
  by (simp add: val_Nil_va val_True_va val_False_va val_Equals val_HasKey val_Contains
        readAllSubject_other split: sum.split)

theorem checks_keep_subject_except_reader_witness:
  "val (snd (Contains libStub
               \<lparr>t_Errorf = [], invert = False, prefix = ''[read_test.go:9]'',
                val = VString ''wanted''\<rparr>
               (VString ''ant'') [])) = VString ''wanted''"
  using checks_keep_subject_except_reader
          [of libStub "\<lparr>t_Errorf = [], invert = False, prefix = ''[read_test.go:9]'',
                        val = VString ''wanted''\<rparr>" "[]" "VString ''ant''"]
  by (simp add: message_def)

end
